theory Spec2Isabelle
  imports Complex_Main
begin

section \<open>Placement analysis (analyze\_rsa.py): data model\<close>

text \<open>
  The script loads a table of advertising placements, computes batch averages
  (\<open>calculate_averages\<close>), classifies each placement identifier
  (\<open>identify_platform_type\<close>), applies an ordered chain of blocking criteria
  (\<open>apply_blocking_criteria\<close>) and segments the placements (\<open>segment_platforms\<close>).

  A row of the data frame is a record. The columns carry Russian names in the source;
  the fields below are, in the order of the source's column list after the placement
  kind: the placement identifier, impressions, clicks, CTR in percent, spend, average
  click price, bounce rate in percent, page depth, goal price (cost per conversion)
  and conversions. The loader turns every numeric cell into a float, so all numeric
  fields are numbers of one kind; they are modelled as reals (rounding of binary
  floating point is not modelled).
\<close>

record row =
  platform :: string
  impressions :: real
  clicks :: real
  ctr :: real
  spend :: real
  cpc :: real
  bounce :: real
  depth :: real
  cpa :: real
  conversions :: real

text \<open>
  An average is what pandas' \<open>Series.mean()\<close> returns: the mean of the values, and the
  float NaN for a series without values (no exception is raised). Every ordered
  comparison with NaN is false, and arithmetic on NaN gives NaN.
\<close>

datatype pyfloat = NaN | Num real

fun pf_times :: "pyfloat \<Rightarrow> real \<Rightarrow> pyfloat" where
  "pf_times NaN k = NaN"
| "pf_times (Num x) k = Num (x * k)"

fun pf_less :: "pyfloat \<Rightarrow> pyfloat \<Rightarrow> bool" where
  "pf_less (Num x) (Num y) = (x < y)"
| "pf_less _ _ = False"

fun pf_le :: "pyfloat \<Rightarrow> pyfloat \<Rightarrow> bool" where
  "pf_le (Num x) (Num y) = (x \<le> y)"
| "pf_le _ _ = False"

definition mean :: "real list \<Rightarrow> pyfloat" where
  "mean xs = (if xs = [] then NaN else Num (sum_list xs / real (length xs)))"

record averages =
  avg_ctr :: pyfloat
  avg_cpc :: pyfloat
  avg_bounce :: pyfloat
  avg_depth :: pyfloat
  avg_conversions :: pyfloat
  avg_spend :: pyfloat
  avg_cpa :: pyfloat

section \<open>calculate\_averages\<close>

text \<open>
  The errors a function of the script can end with. \<open>ZeroDivisionError\<close> is what
  Python raises on a division by zero; \<open>EmptyBatchError\<close> is the failure the
  specification names for a batch without records.

  \<open>calculate_averages\<close> has no \<open>raise\<close> and calls nothing that raises on a data frame
  with the expected columns. \<open>avg_cpa\<close> is the mean of the goal price over the rows with
  conversions above zero, and the integer 0 when there is no such row.
\<close>

datatype error = EmptyBatchError | ZeroDivisionError

definition calculate_averages :: "row list \<Rightarrow> error + averages" where
  "calculate_averages df =
     (let df_with_conversions = filter (\<lambda>r. conversions r > 0) df
      in Inr \<lparr> avg_ctr = mean (map ctr df),
               avg_cpc = mean (map cpc df),
               avg_bounce = mean (map bounce df),
               avg_depth = mean (map depth df),
               avg_conversions = mean (map conversions df),
               avg_spend = mean (map spend df),
               avg_cpa = (if length df_with_conversions > 0
                          then mean (map cpa df_with_conversions) else Num 0) \<rparr>)"

section \<open>identify\_platform\_type\<close>

text \<open>
  Identifiers are byte strings; \<open>lower\<close> maps the ASCII capitals to small letters and
  leaves every other byte alone (Python's \<open>str.lower\<close> restricted to ASCII text).
  \<open>startswith\<close>, \<open>endswith\<close>, \<open>contains\<close> (Python's \<open>in\<close> on strings) and
  \<open>count_char\<close> (\<open>str.count\<close> of a one-character string) are the string operations
  the classifier uses.
\<close>

definition lower_char :: "char \<Rightarrow> char" where
  "lower_char c =
     (let n = (of_char c :: nat) in if 65 \<le> n \<and> n \<le> 90 then char_of (n + 32) else c)"

definition lower :: "string \<Rightarrow> string" where
  "lower s = map lower_char s"

fun startswith :: "string \<Rightarrow> string \<Rightarrow> bool" where
  "startswith s [] = True"
| "startswith [] (c # p) = False"
| "startswith (x # s) (c # p) = (x = c \<and> startswith s p)"

definition endswith :: "string \<Rightarrow> string \<Rightarrow> bool" where
  "endswith s p = startswith (rev s) (rev p)"

fun contains :: "string \<Rightarrow> string \<Rightarrow> bool" where
  "contains sub [] = (sub = [])"
| "contains sub (x # s) = (startswith (x # s) sub \<or> contains sub s)"

definition count_char :: "string \<Rightarrow> char \<Rightarrow> nat" where
  "count_char s c = length (filter (\<lambda>x. x = c) s)"

datatype platform_type = Yandex | DSP | MobileApp | ComSite | Site

definition mobile_prefixes :: "string list" where
  "mobile_prefixes =
     [''com.'', ''ru.'', ''by.'', ''fm.'', ''org.'', ''cz.'',
      ''net.'', ''biz.'', ''game.'', ''afisha.'', ''asian.'',
      ''air.'', ''and.'', ''io.'', ''con.'', ''tap.'']"

text \<open>
  The \<open>for\<close> loop over the prefixes: it returns from the function at the first prefix
  that matches and passes the inner test, and falls out of the loop otherwise.
\<close>

fun mobile_loop :: "string \<Rightarrow> string list \<Rightarrow> platform_type option" where
  "mobile_loop platform_name [] = None"
| "mobile_loop platform_name (prefix # rest) =
     (if startswith platform_name prefix
      then (if count_char platform_name (CHR ''.'') \<ge> 2
               \<or> \<not> (contains ''yandex'' platform_name \<or> contains ''dzen'' platform_name)
            then Some MobileApp
            else mobile_loop platform_name rest)
      else mobile_loop platform_name rest)"

definition identify_platform_type :: "string \<Rightarrow> platform_type" where
  "identify_platform_type name =
     (let platform_name = lower name in
      if contains ''yandex'' platform_name \<or> platform_name = ''dzen.ru'' then Yandex
      else if startswith platform_name ''dsp-'' then DSP
      else (case mobile_loop platform_name mobile_prefixes of
              Some t \<Rightarrow> t
            | None \<Rightarrow> if endswith platform_name ''.com'' then ComSite else Site))"

section \<open>apply\_blocking\_criteria\<close>

text \<open>
  The criterion numbers, priorities, reasons and recommendations are string constants
  of the source (several contain Cyrillic letters); each set of constants is a
  datatype. \<open>C_2_2a\<close>, \<open>C_2_2b\<close>, \<open>C_2_2b_2_1\<close>, \<open>C_2_1A\<close>, \<open>C_2_1B\<close>, \<open>C_2_3\<close>,
  \<open>C_2_8\<close>, \<open>C_2_4\<close>, \<open>C_2_5\<close>, \<open>C_2_5B\<close>, \<open>C_2_6\<close> stand for the criterion numbers
  "2.2a", "2.2b", "2.2b + 2.1", "2.1A", "2.1B", "2.3", "2.8", "2.4", "2.5", "2.5B",
  "2.6".
\<close>

datatype criterion =
  C_2_2a | C_2_2b | C_2_2b_2_1 | C_2_1A | C_2_1B | C_2_3 | C_2_8 | C_2_4 | C_2_5 | C_2_5B | C_2_6

datatype priority = Critical | High | Medium_priority | Supplementary

datatype recommendation = Keep | Block | Block_immediately

datatype reason =
  Extreme_ctr | High_ctr_no_conversions | High_ctr_expensive_conversions
  | High_conversion_cost | Zero_conversions_with_spend | Critically_low_ctr
  | Cheap_click_high_ctr | Low_engagement | Mobile_app_suspicious | Dsp_suspicious
  | Com_domain_no_conversions

text \<open>
  The variables the loop body assigns while it walks through the criteria. The
  deviation text and the list of special features only feed the report and are not
  modelled.
\<close>

record decision =
  blocking_reason :: "reason option"
  priority :: "priority option"
  recommendation :: recommendation
  criteria_number :: "criterion option"

definition initial_decision :: decision where
  "initial_decision =
     \<lparr> blocking_reason = None, priority = None, recommendation = Keep,
       criteria_number = None \<rparr>"

definition block :: "reason \<Rightarrow> priority \<Rightarrow> recommendation \<Rightarrow> criterion \<Rightarrow> decision \<Rightarrow> decision" where
  "block rsn prio rec num d =
     d\<lparr> blocking_reason := Some rsn, priority := Some prio, recommendation := rec,
        criteria_number := Some num \<rparr>"

text \<open>Criteria 2.2a and 2.2b: the \<open>if\<close>/\<open>elif\<close> with its nested \<open>if\<close>/\<open>elif\<close>.\<close>

definition crit_2_2 :: "real \<Rightarrow> averages \<Rightarrow> row \<Rightarrow> decision \<Rightarrow> decision" where
  "crit_2_2 yandex_coef avgs r d =
     (if ctr r \<ge> 50 \<and> impressions r \<ge> 10
      then block Extreme_ctr Critical Block_immediately C_2_2a d
      else if ctr r \<ge> 10 * yandex_coef \<and> ctr r < 50 \<and> impressions r \<ge> 10
      then (if conversions r = 0
            then block High_ctr_no_conversions High Block C_2_2b d
            else if conversions r > 0
                    \<and> pf_less (pf_times (pf_times (avg_cpa avgs) 2.5) yandex_coef) (Num (cpa r))
            then block High_ctr_expensive_conversions High Block C_2_2b_2_1 d
            else d)
      else d)"

text \<open>Criterion 2.1A.\<close>

definition crit_2_1A :: "real \<Rightarrow> averages \<Rightarrow> row \<Rightarrow> decision \<Rightarrow> decision" where
  "crit_2_1A yandex_coef avgs r d =
     (if blocking_reason d = None \<and> conversions r > 0
      then (let threshold_cpa = pf_times (pf_times (avg_cpa avgs) 2.5) yandex_coef
            in if pf_less threshold_cpa (Num (cpa r)) \<and> pf_less (Num 0) (avg_cpa avgs)
               then block High_conversion_cost Critical Block C_2_1A d
               else d)
      else d)"

text \<open>
  The deviation text of criterion 2.1A divides the goal price by \<open>avg_cpa\<close>. The goal
  price is a float and \<open>avg_cpa\<close> is the integer 0 when no row has conversions, so a
  divisor of zero is taken to raise. \<open>crit_2_1A_with_deviation\<close> is the block of
  criterion 2.1A with that division in it.
\<close>

definition py_div :: "real \<Rightarrow> pyfloat \<Rightarrow> error + pyfloat" where
  "py_div x y =
     (case y of
        NaN \<Rightarrow> Inr NaN
      | Num d \<Rightarrow> if d = 0 then Inl ZeroDivisionError else Inr (Num (x / d)))"

definition crit_2_1A_with_deviation ::
  "real \<Rightarrow> averages \<Rightarrow> row \<Rightarrow> decision \<Rightarrow> error + decision" where
  "crit_2_1A_with_deviation yandex_coef avgs r d =
     (if blocking_reason d = None \<and> conversions r > 0
      then (let threshold_cpa = pf_times (pf_times (avg_cpa avgs) 2.5) yandex_coef
            in if pf_less threshold_cpa (Num (cpa r)) \<and> pf_less (Num 0) (avg_cpa avgs)
               then (case py_div (cpa r) (avg_cpa avgs) of
                       Inl e \<Rightarrow> Inl e
                     | Inr ratio \<Rightarrow> Inr (block High_conversion_cost Critical Block C_2_1A d))
               else Inr d)
      else Inr d)"

text \<open>Criterion 2.1B.\<close>

definition crit_2_1B :: "real \<Rightarrow> row \<Rightarrow> decision \<Rightarrow> decision" where
  "crit_2_1B yandex_coef r d =
     (if blocking_reason d = None \<and> conversions r = 0
      then (let min_spend = 50 * yandex_coef
            in if spend r \<ge> min_spend \<and> clicks r \<ge> 10
               then block Zero_conversions_with_spend Critical Block C_2_1B d
               else d)
      else d)"

text \<open>Criterion 2.3.\<close>

definition crit_2_3 :: "real \<Rightarrow> row \<Rightarrow> decision \<Rightarrow> decision" where
  "crit_2_3 yandex_coef r d =
     (if blocking_reason d = None
      then (let low_ctr_threshold = 0.20 / yandex_coef
            in if ctr r < low_ctr_threshold \<and> impressions r \<ge> 1000
               then block Critically_low_ctr High Block C_2_3 d
               else d)
      else d)"

text \<open>Criterion 2.8.\<close>

definition crit_2_8 :: "averages \<Rightarrow> row \<Rightarrow> decision \<Rightarrow> decision" where
  "crit_2_8 avgs r d =
     (if blocking_reason d = None
      then (if pf_less (Num (cpc r)) (pf_times (avg_cpc avgs) 0.3) \<and> ctr r > 15
            then block Cheap_click_high_ctr High Block C_2_8 d
            else d)
      else d)"

text \<open>Criterion 2.4.\<close>

definition crit_2_4 :: "real \<Rightarrow> averages \<Rightarrow> row \<Rightarrow> decision \<Rightarrow> decision" where
  "crit_2_4 yandex_coef avgs r d =
     (if blocking_reason d = None
      then (let bounce_threshold = pf_times (pf_times (avg_bounce avgs) 1.2) yandex_coef
            in if (pf_less bounce_threshold (Num (bounce r)) \<or> depth r \<le> 1.0)
                  \<and> conversions r = 0 \<and> clicks r \<ge> 20
               then block Low_engagement Medium_priority Block C_2_4 d
               else d)
      else d)"

text \<open>Criteria 2.5 and 2.5B share their test on the row.\<close>

definition suspicious :: "row \<Rightarrow> bool" where
  "suspicious r \<longleftrightarrow>
     (ctr r > 15 \<and> conversions r = 0) \<or> (cpc r < 0.5 \<and> ctr r > 20)
     \<or> (spend r > 30 \<and> conversions r = 0)"

definition crit_2_5 :: "platform_type \<Rightarrow> row \<Rightarrow> decision \<Rightarrow> decision" where
  "crit_2_5 ptype r d =
     (if ptype = MobileApp \<and> blocking_reason d = None
      then (if suspicious r then block Mobile_app_suspicious Supplementary Block C_2_5 d else d)
      else d)"

definition crit_2_5B :: "platform_type \<Rightarrow> row \<Rightarrow> decision \<Rightarrow> decision" where
  "crit_2_5B ptype r d =
     (if ptype = DSP \<and> blocking_reason d = None
      then (if suspicious r then block Dsp_suspicious Supplementary Block C_2_5B d else d)
      else d)"

text \<open>Criterion 2.6.\<close>

definition crit_2_6 :: "platform_type \<Rightarrow> row \<Rightarrow> decision \<Rightarrow> decision" where
  "crit_2_6 ptype r d =
     (if ptype = ComSite \<and> blocking_reason d = None
      then (if conversions r = 0 \<and> spend r > 30
            then block Com_domain_no_conversions Supplementary Block C_2_6 d
            else d)
      else d)"

text \<open>
  A row of the result: the placement, its type and what was decided. The copies of the
  row's metrics and the formatted texts of the result row are not modelled.
\<close>

record verdict =
  v_platform :: string
  v_type :: platform_type
  v_reason :: reason
  v_criteria_number :: "criterion option"
  v_priority :: "priority option"
  v_recommendation :: recommendation

text \<open>The coefficient that softens the thresholds for Yandex placements.\<close>

definition yandex_coef :: "platform_type \<Rightarrow> real" where
  "yandex_coef platform_type =
     (let is_yandex = (platform_type = Yandex) in if is_yandex then 1.5 else 1.0)"

text \<open>The criteria in the order of the loop body, from the fresh variables.\<close>

definition decide :: "averages \<Rightarrow> row \<Rightarrow> decision" where
  "decide avgs r =
     (let platform_type = identify_platform_type (platform r);
          coef = yandex_coef platform_type;
          d = initial_decision;
          d = crit_2_2 coef avgs r d;
          d = crit_2_1A coef avgs r d;
          d = crit_2_1B coef r d;
          d = crit_2_3 coef r d;
          d = crit_2_8 avgs r d;
          d = crit_2_4 coef avgs r d;
          d = crit_2_5 platform_type r d;
          d = crit_2_5B platform_type r d;
          d = crit_2_6 platform_type r d
      in d)"

text \<open>One pass of the loop body: the result list, extended when a reason was set.\<close>

definition process_row :: "averages \<Rightarrow> verdict list \<Rightarrow> row \<Rightarrow> verdict list" where
  "process_row avgs results r =
     (let d = decide avgs r in
      case blocking_reason d of
        None \<Rightarrow> results
      | Some rsn \<Rightarrow>
          results @ [\<lparr> v_platform = platform r,
                       v_type = identify_platform_type (platform r),
                       v_reason = rsn,
                       v_criteria_number = criteria_number d,
                       v_priority = priority d,
                       v_recommendation = recommendation d \<rparr>])"

definition apply_blocking_criteria :: "row list \<Rightarrow> averages \<Rightarrow> verdict list" where
  "apply_blocking_criteria df avgs = foldl (process_row avgs) [] df"

section \<open>segment\_platforms\<close>

datatype segment = Effective | Medium | Ineffective

definition segment_of :: "averages \<Rightarrow> row \<Rightarrow> segment" where
  "segment_of avgs r =
     (if conversions r > 0 \<and> pf_le (Num (cpa r)) (avg_cpa avgs)
         \<and> (0.5 \<le> ctr r \<and> ctr r \<le> 2)
         \<and> pf_le (Num (bounce r)) (avg_bounce avgs)
      then Effective
      else if ctr r \<ge> 50
              \<or> (ctr r \<ge> 10 \<and> conversions r = 0)
              \<or> (conversions r > 0 \<and> pf_less (pf_times (avg_cpa avgs) 2.5) (Num (cpa r)))
              \<or> (conversions r = 0 \<and> spend r \<ge> 50 \<and> clicks r \<ge> 10)
              \<or> (ctr r < 0.20 \<and> impressions r \<ge> 1000)
      then Ineffective
      else Medium)"

record segments =
  effective :: "string list"
  medium :: "string list"
  ineffective :: "string list"

definition segment_row :: "averages \<Rightarrow> segments \<Rightarrow> row \<Rightarrow> segments" where
  "segment_row avgs sg r =
     (case segment_of avgs r of
        Effective \<Rightarrow> sg\<lparr> effective := effective sg @ [platform r] \<rparr>
      | Ineffective \<Rightarrow> sg\<lparr> ineffective := ineffective sg @ [platform r] \<rparr>
      | Medium \<Rightarrow> sg\<lparr> medium := medium sg @ [platform r] \<rparr>)"

text \<open>
  After the loop the function prints each segment's share, \<open>len(effective)/total\<close>
  with \<open>total = len(df)\<close>: on a batch without records this division raises.
\<close>

definition segment_platforms :: "row list \<Rightarrow> averages \<Rightarrow> error + segments" where
  "segment_platforms df avgs =
     (let sg = foldl (segment_row avgs) \<lparr> effective = [], medium = [], ineffective = [] \<rparr> df;
          total = length df
      in if total = 0 then Inl ZeroDivisionError else Inr sg)"

section \<open>The specification's reading of the components\<close>

text \<open>
  The classifier as the specification words it: the identifier is lower-cased, then
  the first of five tests that holds names the category. The third test is "starts
  with one of the listed prefixes, and has at least two dots or does not contain
  yandex or dzen".
\<close>

definition spec_classify :: "string \<Rightarrow> platform_type" where
  "spec_classify name =
     (let s = lower name in
      if contains ''yandex'' s \<or> s = ''dzen.ru'' then Yandex
      else if startswith s ''dsp-'' then DSP
      else if (\<exists>p \<in> set mobile_prefixes. startswith s p)
              \<and> (count_char s (CHR ''.'') \<ge> 2
                  \<or> \<not> (contains ''yandex'' s \<or> contains ''dzen'' s))
      then MobileApp
      else if endswith s ''.com'' then ComSite
      else Site)"

text \<open>
  The precedence table of the rule engine as the specification gives it: criterion,
  priority and condition, in order. A condition reads the platform type, the spec_leniency
  coefficient, the baselines and the record.
\<close>

definition spec_leniency :: "platform_type \<Rightarrow> real" where
  "spec_leniency t = (if t = Yandex then 1.5 else 1.0)"

type_synonym rule_condition = "platform_type \<Rightarrow> real \<Rightarrow> averages \<Rightarrow> row \<Rightarrow> bool"

definition spec_rule_table :: "(criterion \<times> priority \<times> rule_condition) list" where
  "spec_rule_table =
     [(C_2_2a, Critical, \<lambda>t coef a r. ctr r \<ge> 50 \<and> impressions r \<ge> 10),
      (C_2_2b, High, \<lambda>t coef a r.
         10 * coef \<le> ctr r \<and> ctr r < 50 \<and> impressions r \<ge> 10 \<and> conversions r = 0),
      (C_2_2b_2_1, High, \<lambda>t coef a r.
         10 * coef \<le> ctr r \<and> ctr r < 50 \<and> impressions r \<ge> 10 \<and> conversions r > 0
         \<and> pf_less (pf_times (avg_cpa a) (2.5 * coef)) (Num (cpa r))),
      (C_2_1A, Critical, \<lambda>t coef a r.
         conversions r > 0 \<and> pf_less (Num 0) (avg_cpa a)
         \<and> pf_less (pf_times (avg_cpa a) (2.5 * coef)) (Num (cpa r))),
      (C_2_1B, Critical, \<lambda>t coef a r.
         conversions r = 0 \<and> spend r \<ge> 50 * coef \<and> clicks r \<ge> 10),
      (C_2_3, High, \<lambda>t coef a r. ctr r < 0.20 / coef \<and> impressions r \<ge> 1000),
      (C_2_8, High, \<lambda>t coef a r.
         pf_less (Num (cpc r)) (pf_times (avg_cpc a) 0.3) \<and> ctr r > 15),
      (C_2_4, Medium_priority, \<lambda>t coef a r.
         (pf_less (pf_times (avg_bounce a) (1.2 * coef)) (Num (bounce r)) \<or> depth r \<le> 1.0)
         \<and> conversions r = 0 \<and> clicks r \<ge> 20),
      (C_2_5, Supplementary, \<lambda>t coef a r.
         t = MobileApp
         \<and> ((ctr r > 15 \<and> conversions r = 0) \<or> (cpc r < 0.5 \<and> ctr r > 20)
            \<or> (spend r > 30 \<and> conversions r = 0))),
      (C_2_5B, Supplementary, \<lambda>t coef a r.
         t = DSP
         \<and> ((ctr r > 15 \<and> conversions r = 0) \<or> (cpc r < 0.5 \<and> ctr r > 20)
            \<or> (spend r > 30 \<and> conversions r = 0))),
      (C_2_6, Supplementary, \<lambda>t coef a r.
         t = ComSite \<and> conversions r = 0 \<and> spend r > 30)]"

text \<open>The first rule of the table whose condition holds for the record, if any.\<close>

definition spec_first_match :: "averages \<Rightarrow> row \<Rightarrow> (criterion \<times> priority) option" where
  "spec_first_match a r =
     (let t = identify_platform_type (platform r); coef = spec_leniency t
      in map_option (\<lambda>(c, p, cond). (c, p))
           (find (\<lambda>(c, p, cond). cond t coef a r) spec_rule_table))"

text \<open>The arithmetic mean of a non-empty list of numbers.\<close>

definition arithmetic_mean :: "real list \<Rightarrow> real" where
  "arithmetic_mean xs = sum_list xs / real (length xs)"

text \<open>
  Every criterion after the first block of the loop body has one shape: when no reason
  has been set and the criterion's condition holds, set the outcome. \<open>step\<close> is that
  shape; the lemmas below put each criterion of the code into it.
\<close>

definition step ::
  "bool \<Rightarrow> reason \<Rightarrow> priority \<Rightarrow> recommendation \<Rightarrow> criterion \<Rightarrow> decision \<Rightarrow> decision" where
  "step c rsn p rec n d = (if blocking_reason d = None \<and> c then block rsn p rec n d else d)"

text \<open>
  What a decision says once the loop body is through (nothing, or criterion number and
  priority), and what a result row says.
\<close>

definition outcome :: "decision \<Rightarrow> (criterion option \<times> priority option) option" where
  "outcome d =
     (case blocking_reason d of None \<Rightarrow> None
      | Some rsn \<Rightarrow> Some (criteria_number d, priority d))"

definition said :: "verdict \<Rightarrow> criterion option \<times> priority option" where
  "said v = (v_criteria_number v, v_priority v)"

text \<open>
  A criterion fires for a record when, tried on the fresh variables with the record's
  own coefficient, it sets its criterion number. A lenient pair is a Yandex placement
  and a plain site with the same numeric fields.
\<close>

definition fires :: "criterion \<Rightarrow> (real \<Rightarrow> row \<Rightarrow> decision \<Rightarrow> decision) \<Rightarrow> row \<Rightarrow> bool" where
  "fires c crit r \<longleftrightarrow>
     criteria_number
       (crit (yandex_coef (identify_platform_type (platform r))) r initial_decision) = Some c"

definition lenient_pair :: "row \<Rightarrow> row \<Rightarrow> bool" where
  "lenient_pair ry rg \<longleftrightarrow>
     identify_platform_type (platform ry) = Yandex
     \<and> identify_platform_type (platform rg) = Site
     \<and> rg = ry\<lparr> platform := platform rg \<rparr>"

text \<open>Baselines and a record to build examples from.\<close>

definition example_baselines :: averages where
  "example_baselines =
     \<lparr> avg_ctr = Num 1, avg_cpc = Num 10, avg_bounce = Num 50, avg_depth = Num 2,
       avg_conversions = Num 1, avg_spend = Num 100, avg_cpa = Num 100 \<rparr>"

definition example_row :: row where
  "example_row =
     \<lparr> platform = '''', impressions = 100, clicks = 20, ctr = 1, spend = 0,
       cpc = 10, bounce = 20, depth = 2, cpa = 0, conversions = 0 \<rparr>"

section \<open>The rule engine follows the precedence table\<close>

lemma pf_times_times: "pf_times (pf_times x a) b = pf_times x (a * b)"
  by (cases x) simp_all


lemma blocking_reason_block [simp]: "blocking_reason (block rsn p rec n d) = Some rsn"
  by (simp add: block_def)

lemma blocking_reason_initial [simp]: "blocking_reason initial_decision = None"
  by (simp add: initial_decision_def)

lemma crit_2_2_step:
  "blocking_reason d = None \<Longrightarrow>
   crit_2_2 coef a r d =
     step (10 * coef \<le> ctr r \<and> ctr r < 50 \<and> impressions r \<ge> 10 \<and> conversions r > 0
           \<and> pf_less (pf_times (avg_cpa a) (2.5 * coef)) (Num (cpa r)))
          High_ctr_expensive_conversions High Block C_2_2b_2_1
       (step (10 * coef \<le> ctr r \<and> ctr r < 50 \<and> impressions r \<ge> 10 \<and> conversions r = 0)
             High_ctr_no_conversions High Block C_2_2b
          (step (ctr r \<ge> 50 \<and> impressions r \<ge> 10) Extreme_ctr Critical Block_immediately C_2_2a d))"
  by (auto simp: crit_2_2_def step_def pf_times_times)

lemma crit_2_1A_step:
  "crit_2_1A coef a r d =
     step (conversions r > 0 \<and> pf_less (Num 0) (avg_cpa a)
           \<and> pf_less (pf_times (avg_cpa a) (2.5 * coef)) (Num (cpa r)))
          High_conversion_cost Critical Block C_2_1A d"
  by (auto simp: crit_2_1A_def step_def pf_times_times Let_def)

lemma crit_2_1B_step:
  "crit_2_1B coef r d =
     step (conversions r = 0 \<and> spend r \<ge> 50 * coef \<and> clicks r \<ge> 10)
          Zero_conversions_with_spend Critical Block C_2_1B d"
  by (auto simp: crit_2_1B_def step_def Let_def)

lemma crit_2_3_step:
  "crit_2_3 coef r d =
     step (ctr r < 0.20 / coef \<and> impressions r \<ge> 1000) Critically_low_ctr High Block C_2_3 d"
  by (auto simp: crit_2_3_def step_def Let_def)

lemma crit_2_8_step:
  "crit_2_8 a r d =
     step (pf_less (Num (cpc r)) (pf_times (avg_cpc a) 0.3) \<and> ctr r > 15)
          Cheap_click_high_ctr High Block C_2_8 d"
  by (auto simp: crit_2_8_def step_def)

lemma crit_2_4_step:
  "crit_2_4 coef a r d =
     step ((pf_less (pf_times (avg_bounce a) (1.2 * coef)) (Num (bounce r)) \<or> depth r \<le> 1.0)
           \<and> conversions r = 0 \<and> clicks r \<ge> 20)
          Low_engagement Medium_priority Block C_2_4 d"
  by (auto simp: crit_2_4_def step_def pf_times_times Let_def)

lemma crit_2_5_step:
  "crit_2_5 t r d =
     step (t = MobileApp
           \<and> ((ctr r > 15 \<and> conversions r = 0) \<or> (cpc r < 0.5 \<and> ctr r > 20)
              \<or> (spend r > 30 \<and> conversions r = 0)))
          Mobile_app_suspicious Supplementary Block C_2_5 d"
  by (auto simp: crit_2_5_def step_def suspicious_def)

lemma crit_2_5B_step:
  "crit_2_5B t r d =
     step (t = DSP
           \<and> ((ctr r > 15 \<and> conversions r = 0) \<or> (cpc r < 0.5 \<and> ctr r > 20)
              \<or> (spend r > 30 \<and> conversions r = 0)))
          Dsp_suspicious Supplementary Block C_2_5B d"
  by (auto simp: crit_2_5B_def step_def suspicious_def)

lemma crit_2_6_step:
  "crit_2_6 t r d =
     step (t = ComSite \<and> conversions r = 0 \<and> spend r > 30)
          Com_domain_no_conversions Supplementary Block C_2_6 d"
  by (auto simp: crit_2_6_def step_def)


lemma step_if:
  "blocking_reason d = None \<Longrightarrow> step b rsn p e n d = (if b then block rsn p e n d else d)"
  by (simp add: step_def)

lemma step_after:
  "step b' r' p' e' n' (if b then block rsn p e n d else x) =
     (if b then block rsn p e n d else step b' r' p' e' n' x)"
  by (simp add: step_def)

lemma step_chain:
  "blocking_reason d = None \<Longrightarrow>
   step b11 r11 p11 e11 n11 (step b10 r10 p10 e10 n10 (step b9 r9 p9 e9 n9
     (step b8 r8 p8 e8 n8 (step b7 r7 p7 e7 n7 (step b6 r6 p6 e6 n6
     (step b5 r5 p5 e5 n5 (step b4 r4 p4 e4 n4 (step b3 r3 p3 e3 n3
     (step b2 r2 p2 e2 n2 (step b1 r1 p1 e1 n1 d)))))))))) =
   (if b1 then block r1 p1 e1 n1 d else if b2 then block r2 p2 e2 n2 d
    else if b3 then block r3 p3 e3 n3 d else if b4 then block r4 p4 e4 n4 d
    else if b5 then block r5 p5 e5 n5 d else if b6 then block r6 p6 e6 n6 d
    else if b7 then block r7 p7 e7 n7 d else if b8 then block r8 p8 e8 n8 d
    else if b9 then block r9 p9 e9 n9 d else if b10 then block r10 p10 e10 n10 d
    else if b11 then block r11 p11 e11 n11 d else d)"
  by (simp only: step_if step_after)

lemma decide_steps:
  "decide a r =
    (let t = identify_platform_type (platform r); coef = spec_leniency t; d = initial_decision in
     if ctr r \<ge> 50 \<and> impressions r \<ge> 10
       then block Extreme_ctr Critical Block_immediately C_2_2a d
     else if 10 * coef \<le> ctr r \<and> ctr r < 50 \<and> impressions r \<ge> 10 \<and> conversions r = 0
       then block High_ctr_no_conversions High Block C_2_2b d
     else if 10 * coef \<le> ctr r \<and> ctr r < 50 \<and> impressions r \<ge> 10 \<and> conversions r > 0
           \<and> pf_less (pf_times (avg_cpa a) (2.5 * coef)) (Num (cpa r))
       then block High_ctr_expensive_conversions High Block C_2_2b_2_1 d
     else if conversions r > 0 \<and> pf_less (Num 0) (avg_cpa a)
           \<and> pf_less (pf_times (avg_cpa a) (2.5 * coef)) (Num (cpa r))
       then block High_conversion_cost Critical Block C_2_1A d
     else if conversions r = 0 \<and> spend r \<ge> 50 * coef \<and> clicks r \<ge> 10
       then block Zero_conversions_with_spend Critical Block C_2_1B d
     else if ctr r < 0.20 / coef \<and> impressions r \<ge> 1000
       then block Critically_low_ctr High Block C_2_3 d
     else if pf_less (Num (cpc r)) (pf_times (avg_cpc a) 0.3) \<and> ctr r > 15
       then block Cheap_click_high_ctr High Block C_2_8 d
     else if (pf_less (pf_times (avg_bounce a) (1.2 * coef)) (Num (bounce r)) \<or> depth r \<le> 1.0)
           \<and> conversions r = 0 \<and> clicks r \<ge> 20
       then block Low_engagement Medium_priority Block C_2_4 d
     else if t = MobileApp
           \<and> ((ctr r > 15 \<and> conversions r = 0) \<or> (cpc r < 0.5 \<and> ctr r > 20)
              \<or> (spend r > 30 \<and> conversions r = 0))
       then block Mobile_app_suspicious Supplementary Block C_2_5 d
     else if t = DSP
           \<and> ((ctr r > 15 \<and> conversions r = 0) \<or> (cpc r < 0.5 \<and> ctr r > 20)
              \<or> (spend r > 30 \<and> conversions r = 0))
       then block Dsp_suspicious Supplementary Block C_2_5B d
     else if t = ComSite \<and> conversions r = 0 \<and> spend r > 30
       then block Com_domain_no_conversions Supplementary Block C_2_6 d
     else d)"
proof -
  have coef: "yandex_coef (identify_platform_type (platform r))
                = spec_leniency (identify_platform_type (platform r))"
    by (simp add: spec_leniency_def yandex_coef_def)
  show ?thesis
    unfolding decide_def Let_def coef crit_2_1A_step crit_2_1B_step crit_2_3_step
      crit_2_8_step crit_2_4_step crit_2_5_step crit_2_5B_step crit_2_6_step
      crit_2_2_step [OF blocking_reason_initial]
    by (rule step_chain) simp
qed


lemma first_match_cases:
  "spec_first_match a r =
    (let t = identify_platform_type (platform r); coef = spec_leniency t in
     if ctr r \<ge> 50 \<and> impressions r \<ge> 10 then Some (C_2_2a, Critical)
     else if 10 * coef \<le> ctr r \<and> ctr r < 50 \<and> impressions r \<ge> 10 \<and> conversions r = 0
       then Some (C_2_2b, High)
     else if 10 * coef \<le> ctr r \<and> ctr r < 50 \<and> impressions r \<ge> 10 \<and> conversions r > 0
           \<and> pf_less (pf_times (avg_cpa a) (2.5 * coef)) (Num (cpa r))
       then Some (C_2_2b_2_1, High)
     else if conversions r > 0 \<and> pf_less (Num 0) (avg_cpa a)
           \<and> pf_less (pf_times (avg_cpa a) (2.5 * coef)) (Num (cpa r))
       then Some (C_2_1A, Critical)
     else if conversions r = 0 \<and> spend r \<ge> 50 * coef \<and> clicks r \<ge> 10
       then Some (C_2_1B, Critical)
     else if ctr r < 0.20 / coef \<and> impressions r \<ge> 1000 then Some (C_2_3, High)
     else if pf_less (Num (cpc r)) (pf_times (avg_cpc a) 0.3) \<and> ctr r > 15
       then Some (C_2_8, High)
     else if (pf_less (pf_times (avg_bounce a) (1.2 * coef)) (Num (bounce r)) \<or> depth r \<le> 1.0)
           \<and> conversions r = 0 \<and> clicks r \<ge> 20
       then Some (C_2_4, Medium_priority)
     else if t = MobileApp
           \<and> ((ctr r > 15 \<and> conversions r = 0) \<or> (cpc r < 0.5 \<and> ctr r > 20)
              \<or> (spend r > 30 \<and> conversions r = 0))
       then Some (C_2_5, Supplementary)
     else if t = DSP
           \<and> ((ctr r > 15 \<and> conversions r = 0) \<or> (cpc r < 0.5 \<and> ctr r > 20)
              \<or> (spend r > 30 \<and> conversions r = 0))
       then Some (C_2_5B, Supplementary)
     else if t = ComSite \<and> conversions r = 0 \<and> spend r > 30 then Some (C_2_6, Supplementary)
     else None)"
  unfolding spec_first_match_def spec_rule_table_def Let_def find.simps prod.case
    if_distrib [of "map_option (\<lambda>(c, p, cond). (c, p))"] option.map
  by (rule refl)

text \<open>What a decision says, once the loop body is through: nothing, or criterion and priority.\<close>

lemma block_fields:
  "criteria_number (block rsn p e n d) = Some n" "priority (block rsn p e n d) = Some p"
  "recommendation (block rsn p e n d) = e"
  by (simp_all add: block_def)



lemma chain_outcome:
  assumes "blocking_reason d = None"
  shows "outcome (if b1 then block r1 p1 e1 n1 d else if b2 then block r2 p2 e2 n2 d
            else if b3 then block r3 p3 e3 n3 d else if b4 then block r4 p4 e4 n4 d
            else if b5 then block r5 p5 e5 n5 d else if b6 then block r6 p6 e6 n6 d
            else if b7 then block r7 p7 e7 n7 d else if b8 then block r8 p8 e8 n8 d
            else if b9 then block r9 p9 e9 n9 d else if b10 then block r10 p10 e10 n10 d
            else if b11 then block r11 p11 e11 n11 d else d)
       = map_option (\<lambda>(c, p). (Some c, Some p))
           (if b1 then Some (n1, p1) else if b2 then Some (n2, p2)
            else if b3 then Some (n3, p3) else if b4 then Some (n4, p4)
            else if b5 then Some (n5, p5) else if b6 then Some (n6, p6)
            else if b7 then Some (n7, p7) else if b8 then Some (n8, p8)
            else if b9 then Some (n9, p9) else if b10 then Some (n10, p10)
            else if b11 then Some (n11, p11) else None)"
  using assms by (simp add: block_fields outcome_def)

lemma decide_outcome:
  "outcome (decide a r) = map_option (\<lambda>(c, p). (Some c, Some p)) (spec_first_match a r)"
  unfolding decide_steps first_match_cases Let_def
  by (rule chain_outcome) simp

text \<open>The loop: each row adds what its decision says, and nothing else.\<close>

lemma process_row_said:
  "map said (process_row a results r) =
     map said results @ (case outcome (decide a r) of None \<Rightarrow> [] | Some x \<Rightarrow> [x])"
  by (simp add: process_row_def outcome_def said_def Let_def split: option.splits)

lemma process_row_length:
  "length (process_row a results r) \<le> Suc (length results)"
  by (simp add: process_row_def Let_def split: option.splits)

lemma foldl_process_row_said:
  "map said (foldl (process_row a) acc df) =
     map said acc @ map (\<lambda>(c, p). (Some c, Some p)) (List.map_filter (spec_first_match a) df)"
proof (induction df arbitrary: acc)
  case Nil
  show ?case by (simp add: map_filter_simps)
next
  case (Cons r df)
  show ?case
    by (cases "spec_first_match a r")
       (simp_all add: Cons.IH process_row_said decide_outcome map_filter_simps)
qed

text \<open>
  C1. For every record the engine gives at most one verdict, and over any batch the
  criterion numbers and priorities of the verdicts are, record by record and in order,
  those of the first rule of the precedence table whose condition holds for the
  record; a record for which no condition holds gives no verdict.
\<close>

theorem engine_first_match:
  "length (apply_blocking_criteria [r] a) \<le> 1
   \<and> map said (apply_blocking_criteria df a) =
       map (\<lambda>(c, p). (Some c, Some p)) (List.map_filter (spec_first_match a) df)"
proof
  show "length (apply_blocking_criteria [r] a) \<le> 1"
    using process_row_length [of a "[]" r] by (simp add: apply_blocking_criteria_def)
  show "map said (apply_blocking_criteria df a) =
          map (\<lambda>(c, p). (Some c, Some p)) (List.map_filter (spec_first_match a) df)"
    by (simp add: apply_blocking_criteria_def foldl_process_row_said)
qed

text \<open>
  A record for which the conditions of 2.2a, 2.1B, 2.8, 2.4 and 2.5 all hold gets the
  verdict of 2.2a; a record for which none holds gets none.
\<close>

theorem engine_first_match_witness:
  "map said (apply_blocking_criteria
       [\<lparr> platform = ''com.example.app'', impressions = 1000, clicks = 600, ctr = 60,
          spend = 100, cpc = 0.1, bounce = 90, depth = 1, cpa = 0, conversions = 0 \<rparr>,
        \<lparr> platform = ''example.ru'', impressions = 500, clicks = 5, ctr = 1,
          spend = 20, cpc = 4, bounce = 20, depth = 3, cpa = 0, conversions = 0 \<rparr>]
       \<lparr> avg_ctr = Num 5, avg_cpc = Num 10, avg_bounce = Num 30, avg_depth = Num 2,
         avg_conversions = Num 1, avg_spend = Num 100, avg_cpa = Num 100 \<rparr>)
   = [(Some C_2_2a, Some Critical)]"
  using engine_first_match
    [of "\<lparr> platform = ''com.example.app'', impressions = 1000, clicks = 600, ctr = 60,
           spend = 100, cpc = 0.1, bounce = 90, depth = 1, cpa = 0, conversions = 0 \<rparr>"
        "\<lparr> avg_ctr = Num 5, avg_cpc = Num 10, avg_bounce = Num 30, avg_depth = Num 2,
           avg_conversions = Num 1, avg_spend = Num 100, avg_cpa = Num 100 \<rparr>"
        "[\<lparr> platform = ''com.example.app'', impressions = 1000, clicks = 600, ctr = 60,
            spend = 100, cpc = 0.1, bounce = 90, depth = 1, cpa = 0, conversions = 0 \<rparr>,
          \<lparr> platform = ''example.ru'', impressions = 500, clicks = 5, ctr = 1,
            spend = 20, cpc = 4, bounce = 20, depth = 3, cpa = 0, conversions = 0 \<rparr>]"]
  by (simp add: first_match_cases Let_def spec_leniency_def identify_platform_type_def lower_def
        lower_char_def mobile_prefixes_def endswith_def)

section \<open>calculate\_averages: the empty batch and the conversion-cost baseline\<close>

text \<open>
  C2, as the code has it. On a batch without records \<open>calculate_averages\<close> does not
  fail: it returns the statistics in which the six means over all records are NaN
  (the mean of an empty series) and \<open>avg_cpa\<close> is 0.
\<close>

theorem calculate_averages_empty:
  "calculate_averages [] =
     Inr \<lparr> avg_ctr = NaN, avg_cpc = NaN, avg_bounce = NaN, avg_depth = NaN,
           avg_conversions = NaN, avg_spend = NaN, avg_cpa = Num 0 \<rparr>"
  by (simp add: calculate_averages_def mean_def)

text \<open>C2 as stated fails: the empty batch does not give an \<open>EmptyBatchError\<close>.\<close>

theorem empty_batch_no_error:
  "calculate_averages [] \<noteq> Inl EmptyBatchError"
  by (simp add: calculate_averages_def)

text \<open>
  C4. \<open>avg_cpa\<close> is the arithmetic mean of the goal price over exactly the records
  with conversions above zero, and 0 when there is no such record.
\<close>

theorem avg_cpa_mean_of_converting:
  "\<exists>s. calculate_averages df = Inr s
       \<and> avg_cpa s =
           (let converting = filter (\<lambda>r. conversions r > 0) df
            in if converting = [] then Num 0
               else Num (arithmetic_mean (map cpa converting)))"
  by (simp add: calculate_averages_def mean_def arithmetic_mean_def Let_def)

theorem avg_cpa_mean_of_converting_witness:
  "\<exists>s. calculate_averages
         [\<lparr> platform = ''a.ru'', impressions = 100, clicks = 5, ctr = 5, spend = 200,
            cpc = 40, bounce = 10, depth = 2, cpa = 100, conversions = 2 \<rparr>,
          \<lparr> platform = ''b.ru'', impressions = 100, clicks = 5, ctr = 5, spend = 200,
            cpc = 40, bounce = 10, depth = 2, cpa = 999, conversions = 0 \<rparr>,
          \<lparr> platform = ''c.ru'', impressions = 100, clicks = 5, ctr = 5, spend = 300,
            cpc = 60, bounce = 10, depth = 2, cpa = 300, conversions = 1 \<rparr>] = Inr s
       \<and> avg_cpa s = Num 200"
  using avg_cpa_mean_of_converting
    [of "[\<lparr> platform = ''a.ru'', impressions = 100, clicks = 5, ctr = 5, spend = 200,
            cpc = 40, bounce = 10, depth = 2, cpa = 100, conversions = 2 \<rparr>,
          \<lparr> platform = ''b.ru'', impressions = 100, clicks = 5, ctr = 5, spend = 200,
            cpc = 40, bounce = 10, depth = 2, cpa = 999, conversions = 0 \<rparr>,
          \<lparr> platform = ''c.ru'', impressions = 100, clicks = 5, ctr = 5, spend = 300,
            cpc = 60, bounce = 10, depth = 2, cpa = 300, conversions = 1 \<rparr>]"]
  by (simp add: arithmetic_mean_def)

section \<open>identify\_platform\_type\<close>

text \<open>The string tests mean what their names say.\<close>

lemma startswith_iff: "startswith s p \<longleftrightarrow> (\<exists>t. s = p @ t)"
  by (induction s p rule: startswith.induct) auto

lemma endswith_iff: "endswith s p \<longleftrightarrow> (\<exists>t. s = t @ p)"
proof
  assume "endswith s p"
  then obtain t where "rev s = rev p @ t"
    by (auto simp: endswith_def startswith_iff)
  then have "s = rev t @ p"
    by (metis rev_append rev_rev_ident)
  then show "\<exists>t. s = t @ p" ..
next
  assume "\<exists>t. s = t @ p"
  then show "endswith s p"
    by (auto simp: endswith_def startswith_iff)
qed

lemma contains_iff: "contains sub s \<longleftrightarrow> (\<exists>u v. s = u @ sub @ v)"
proof (induction s)
  case Nil
  show ?case by auto
next
  case (Cons x s)
  show ?case
  proof
    assume "contains sub (x # s)"
    then consider "startswith (x # s) sub" | "contains sub s" by auto
    then show "\<exists>u v. x # s = u @ sub @ v"
    proof cases
      case 1
      then obtain t where "x # s = [] @ sub @ t" by (auto simp: startswith_iff)
      then show ?thesis by blast
    next
      case 2
      then obtain u v where "s = u @ sub @ v" using Cons.IH by blast
      then have "x # s = (x # u) @ sub @ v" by simp
      then show ?thesis by blast
    qed
  next
    assume "\<exists>u v. x # s = u @ sub @ v"
    then obtain u v where uv: "x # s = u @ sub @ v" by blast
    show "contains sub (x # s)"
    proof (cases u)
      case Nil
      with uv have "startswith (x # s) sub" by (auto simp: startswith_iff)
      then show ?thesis by simp
    next
      case (Cons y u')
      with uv have "s = u' @ sub @ v" by simp
      then have "contains sub s" using Cons.IH by blast
      then show ?thesis by simp
    qed
  qed
qed

lemma lower_char_idem: "lower_char (lower_char c) = lower_char c"
proof (cases "65 \<le> (of_char c :: nat) \<and> (of_char c :: nat) \<le> 90")
  case True
  then have "(of_char (char_of (of_char c + 32 :: nat)) :: nat) = of_char c + 32"
    by simp
  with True show ?thesis by (simp add: lower_char_def Let_def)
next
  case False
  then show ?thesis by (auto simp: lower_char_def Let_def)
qed

lemma lower_idem: "lower (lower s) = lower s"
  by (simp add: lower_def lower_char_idem)

text \<open>The loop over the prefixes is the specification's third test.\<close>

lemma mobile_loop_spec:
  "mobile_loop s ps =
     (if (\<exists>p \<in> set ps. startswith s p)
         \<and> (count_char s (CHR ''.'') \<ge> 2 \<or> \<not> (contains ''yandex'' s \<or> contains ''dzen'' s))
      then Some MobileApp else None)"
  by (induction ps) auto

lemma identify_spec: "identify_platform_type name = spec_classify name"
  by (simp add: identify_platform_type_def spec_classify_def Let_def mobile_loop_spec)

lemma identify_lower:
  "identify_platform_type (lower name) = identify_platform_type name"
  by (simp add: identify_platform_type_def lower_idem)

text \<open>
  C3. The classifier gives, for every identifier, one of the five categories, the one
  the specification's precedence names; it depends on the identifier only through its
  lower-cased form, so identifiers that differ in case are classified alike.
\<close>

theorem classifier_spec:
  "identify_platform_type name = spec_classify name
   \<and> identify_platform_type name \<in> {Yandex, DSP, MobileApp, ComSite, Site}
   \<and> (lower name = lower name' \<longrightarrow>
        identify_platform_type name = identify_platform_type name')"
proof (intro conjI impI)
  show "identify_platform_type name = spec_classify name"
    by (rule identify_spec)
  show "identify_platform_type name \<in> {Yandex, DSP, MobileApp, ComSite, Site}"
    by (cases "identify_platform_type name") simp_all
  assume "lower name = lower name'"
  then show "identify_platform_type name = identify_platform_type name'"
    using identify_lower [of name] identify_lower [of name'] by simp
qed

theorem classifier_spec_witness:
  "lower ''Com.Example.APP'' = lower ''com.example.app''
   \<and> identify_platform_type ''Com.Example.APP'' = MobileApp
   \<and> identify_platform_type ''com.example.app'' = MobileApp
   \<and> spec_classify ''Com.Example.APP'' = MobileApp"
  using classifier_spec [of "''Com.Example.APP''" "''com.example.app''"]
  by (auto simp: spec_classify_def Let_def lower_def lower_char_def mobile_prefixes_def
        endswith_def char_of_eq_iff)

section \<open>Single criteria\<close>

text \<open>The engine on one record, read off the precedence table.\<close>

lemma apply_single_said:
  "map said (apply_blocking_criteria [r] a) =
     (case spec_first_match a r of None \<Rightarrow> [] | Some (c, p) \<Rightarrow> [(Some c, Some p)])"
  by (simp add: apply_blocking_criteria_def process_row_said decide_outcome
        split: option.splits)

lemma apply_single_empty:
  "apply_blocking_criteria [r] a = [] \<longleftrightarrow> spec_first_match a r = None"
  using apply_single_said [of r a] by (auto split: option.splits)

lemma apply_single_verdict:
  assumes "v \<in> set (apply_blocking_criteria [r] a)"
  shows "\<exists>c p. spec_first_match a r = Some (c, p) \<and> v_criteria_number v = Some c
           \<and> v_priority v = Some p"
proof -
  from assms have "said v \<in> set (map said (apply_blocking_criteria [r] a))"
    by simp
  then show ?thesis
    by (auto simp: apply_single_said said_def split: option.splits)
qed




text \<open>A rule that is the first match has its condition true.\<close>

lemma find_SomeD: "find P xs = Some x \<Longrightarrow> P x \<and> x \<in> set xs"
  by (induction xs) (auto split: if_splits)

lemma first_match_SomeD:
  assumes "spec_first_match a r = Some (c, p)"
  shows "\<exists>cond. (c, p, cond) \<in> set spec_rule_table
           \<and> cond (identify_platform_type (platform r))
                (spec_leniency (identify_platform_type (platform r))) a r"
proof -
  from assms obtain x where
    x: "find (\<lambda>(c, p, cond). cond (identify_platform_type (platform r))
              (spec_leniency (identify_platform_type (platform r))) a r) spec_rule_table = Some x"
    and cp: "(\<lambda>(c, p, cond). (c, p)) x = (c, p)"
    by (auto simp: spec_first_match_def Let_def)
  obtain c' p' cond where x_eq: "x = (c', p', cond)" by (cases x)
  from find_SomeD [OF x] cp x_eq show ?thesis by auto
qed

lemma first_match_2_8D:
  assumes "spec_first_match a r = Some (C_2_8, p)"
  shows "pf_less (Num (cpc r)) (pf_times (avg_cpc a) 0.3) \<and> ctr r > 15"
  using first_match_SomeD [OF assms] by (auto simp: spec_rule_table_def)



text \<open>
  C5. A record with CTR at least 50 and at least 10 impressions gets the verdict of
  criterion 2.2a with critical priority, whatever its other fields and its
  identifier; so does the record with 1000 impressions, 600 clicks, CTR 60 and no
  conversions.
\<close>

theorem extreme_ctr_blocked:
  "(ctr r \<ge> 50 \<and> impressions r \<ge> 10 \<or>
    impressions r = 1000 \<and> clicks r = 600 \<and> ctr r = 60 \<and> conversions r = 0) \<longrightarrow>
   apply_blocking_criteria [r] a =
     [\<lparr> v_platform = platform r, v_type = identify_platform_type (platform r),
        v_reason = Extreme_ctr, v_criteria_number = Some C_2_2a,
        v_priority = Some Critical, v_recommendation = Block_immediately \<rparr>]"
proof
  assume "ctr r \<ge> 50 \<and> impressions r \<ge> 10 \<or>
    impressions r = 1000 \<and> clicks r = 600 \<and> ctr r = 60 \<and> conversions r = 0"
  then have c: "ctr r \<ge> 50 \<and> impressions r \<ge> 10" by auto
  have "decide a r = block Extreme_ctr Critical Block_immediately C_2_2a initial_decision"
    unfolding decide_steps Let_def using c by simp
  then show "apply_blocking_criteria [r] a =
     [\<lparr> v_platform = platform r, v_type = identify_platform_type (platform r),
        v_reason = Extreme_ctr, v_criteria_number = Some C_2_2a,
        v_priority = Some Critical, v_recommendation = Block_immediately \<rparr>]"
    by (simp add: apply_blocking_criteria_def process_row_def block_fields)
qed

theorem extreme_ctr_blocked_witness:
  "map said (apply_blocking_criteria
     [\<lparr> platform = ''yandex.ru'', impressions = 1000, clicks = 600, ctr = 60,
        spend = 0, cpc = 0, bounce = 0, depth = 5, cpa = 0, conversions = 0 \<rparr>]
     \<lparr> avg_ctr = Num 5, avg_cpc = Num 10, avg_bounce = Num 30, avg_depth = Num 2,
       avg_conversions = Num 1, avg_spend = Num 100, avg_cpa = Num 100 \<rparr>)
   = [(Some C_2_2a, Some Critical)]"
  using extreme_ctr_blocked
    [of "\<lparr> platform = ''yandex.ru'', impressions = 1000, clicks = 600, ctr = 60,
           spend = 0, cpc = 0, bounce = 0, depth = 5, cpa = 0, conversions = 0 \<rparr>"
        "\<lparr> avg_ctr = Num 5, avg_cpc = Num 10, avg_bounce = Num 30, avg_depth = Num 2,
           avg_conversions = Num 1, avg_spend = Num 100, avg_cpa = Num 100 \<rparr>"]
  by (simp add: said_def)

text \<open>
  C10. With \<open>avg_cpc\<close> equal to 0, criterion 2.8 leaves the decision as it is for every
  record whose click price is not negative, and no verdict of the engine carries its
  number.
\<close>

theorem zero_avg_cpc_no_2_8:
  assumes "avg_cpc a = Num 0" and "cpc r \<ge> 0"
  shows "crit_2_8 a r d = d
         \<and> (\<forall>v \<in> set (apply_blocking_criteria [r] a). v_criteria_number v \<noteq> Some C_2_8)"
proof
  show "crit_2_8 a r d = d"
    using assms by (simp add: crit_2_8_def)
  show "\<forall>v \<in> set (apply_blocking_criteria [r] a). v_criteria_number v \<noteq> Some C_2_8"
  proof
    fix v assume "v \<in> set (apply_blocking_criteria [r] a)"
    then obtain c p where cp: "spec_first_match a r = Some (c, p)" "v_criteria_number v = Some c"
      using apply_single_verdict by blast
    have "c \<noteq> C_2_8"
    proof
      assume "c = C_2_8"
      with cp have "pf_less (Num (cpc r)) (pf_times (avg_cpc a) 0.3)"
        using first_match_2_8D by blast
      with assms show False by simp
    qed
    with cp show "v_criteria_number v \<noteq> Some C_2_8" by simp
  qed
qed

theorem zero_avg_cpc_no_2_8_witness:
  "avg_cpc \<lparr> avg_ctr = Num 20, avg_cpc = Num 0, avg_bounce = Num 30, avg_depth = Num 2,
             avg_conversions = Num 1, avg_spend = Num 0, avg_cpa = Num 100 \<rparr> = Num 0
   \<and> cpc \<lparr> platform = ''example.ru'', impressions = 5, clicks = 1, ctr = 20,
           spend = 0, cpc = 0, bounce = 10, depth = 3, cpa = 0, conversions = 1 \<rparr> \<ge> 0
   \<and> Some C_2_8 \<notin> v_criteria_number ` set (apply_blocking_criteria
         [\<lparr> platform = ''example.ru'', impressions = 5, clicks = 1, ctr = 20,
            spend = 0, cpc = 0, bounce = 10, depth = 3, cpa = 0, conversions = 1 \<rparr>]
         \<lparr> avg_ctr = Num 20, avg_cpc = Num 0, avg_bounce = Num 30, avg_depth = Num 2,
           avg_conversions = Num 1, avg_spend = Num 0, avg_cpa = Num 100 \<rparr>)"
  using zero_avg_cpc_no_2_8
    [of "\<lparr> avg_ctr = Num 20, avg_cpc = Num 0, avg_bounce = Num 30, avg_depth = Num 2,
           avg_conversions = Num 1, avg_spend = Num 0, avg_cpa = Num 100 \<rparr>"
        "\<lparr> platform = ''example.ru'', impressions = 5, clicks = 1, ctr = 20,
           spend = 0, cpc = 0, bounce = 10, depth = 3, cpa = 0, conversions = 1 \<rparr>"
        initial_decision]
  by force

section \<open>A baseline of zero for the conversion cost\<close>



text \<open>
  The block of criterion 2.1A never ends with an error: the division for its
  deviation text is reached only under \<open>avg_cpa > 0\<close>. So the block is what
  \<open>crit_2_1A\<close> says, for all baselines.
\<close>

lemma crit_2_1A_never_raises:
  "crit_2_1A_with_deviation coef a r d = Inr (crit_2_1A coef a r d)"
  by (cases "avg_cpa a")
     (simp_all add: crit_2_1A_with_deviation_def crit_2_1A_def py_div_def Let_def)

text \<open>
  The expensive-conversion branch of criterion 2.2b has no test \<open>avg_cpa > 0\<close> of its
  own. That its condition cannot hold rests on the baselines being those of the
  record's batch: against \<open>avg_cpa = 0\<close> taken from elsewhere, a record with one
  conversion and goal price 10 would get "2.2b + 2.1".
\<close>

lemma zero_baseline_of_another_batch:
  "map said (apply_blocking_criteria
     [\<lparr> platform = ''example.ru'', impressions = 100, clicks = 20, ctr = 20,
        spend = 100, cpc = 5, bounce = 10, depth = 2, cpa = 10, conversions = 1 \<rparr>]
     \<lparr> avg_ctr = Num 20, avg_cpc = Num 5, avg_bounce = Num 10, avg_depth = Num 2,
       avg_conversions = Num 1, avg_spend = Num 100, avg_cpa = Num 0 \<rparr>)
   = [(Some C_2_2b_2_1, Some High)]"
  by (simp add: apply_single_said first_match_cases Let_def spec_leniency_def
        identify_platform_type_def lower_def lower_char_def mobile_prefixes_def endswith_def)



section \<open>Segments and verdicts\<close>

lemma segment_platforms_single:
  "segment_platforms [r] a =
     Inr (case segment_of a r of
        Effective \<Rightarrow> \<lparr> effective = [platform r], medium = [], ineffective = [] \<rparr>
      | Medium \<Rightarrow> \<lparr> effective = [], medium = [platform r], ineffective = [] \<rparr>
      | Ineffective \<Rightarrow> \<lparr> effective = [], medium = [], ineffective = [platform r] \<rparr>)"
  by (simp add: segment_platforms_def segment_row_def Let_def split: segment.splits)

lemma segment_platforms_empty: "segment_platforms [] a = Inl ZeroDivisionError"
  by (simp add: segment_platforms_def)

lemma segment_medium_iff:
  "segment_platforms [r] a =
     Inr \<lparr> effective = [], medium = [platform r], ineffective = [] \<rparr>
   \<longleftrightarrow> segment_of a r = Medium"
  by (simp add: segment_platforms_single split: segment.splits)

lemma segment_effective_iff:
  "segment_platforms [r] a =
     Inr \<lparr> effective = [platform r], medium = [], ineffective = [] \<rparr>
   \<longleftrightarrow> segment_of a r = Effective"
  by (simp add: segment_platforms_single split: segment.splits)

lemma leniency_bounds:
  "10 \<le> 10 * spec_leniency t" "0.20 / spec_leniency t \<le> 0.20" "1 \<le> spec_leniency t"
  by (simp_all add: spec_leniency_def)

text \<open>A record without conversions, spend and clicks, with CTR below 10 and not a
  low-CTR record at scale, matches no rule.\<close>

lemma zero_record_no_match:
  assumes "conversions r = 0" "spend r = 0" "clicks r = 0"
    and "ctr r < 10" and "\<not> (ctr r < 0.20 \<and> impressions r \<ge> 1000)"
  shows "spec_first_match a r = None"
proof -
  define k where "k = spec_leniency (identify_platform_type (platform r))"
  have k: "10 \<le> 10 * k" "0.20 / k \<le> 0.20"
    unfolding k_def by (rule leniency_bounds)+
  have c2: "\<not> 10 * k \<le> ctr r" using k(1) assms by linarith
  have c3: "\<not> (ctr r < 0.20 / k \<and> impressions r \<ge> 1000)" using k(2) assms by linarith
  have c1: "\<not> ctr r \<ge> 50" "\<not> ctr r > 15" "\<not> ctr r > 20" using assms by auto
  show ?thesis
    unfolding first_match_cases Let_def k_def [symmetric]
    using c1 c2 c3 assms(1,2,3) by simp
qed

text \<open>
  C8 as stated fails: a record without conversions, spend and clicks that has 1000
  impressions (and so CTR 0), judged against the baselines of its own batch, gets the
  verdict of criterion 2.3 and the tag Ineffective.
\<close>

theorem zero_record_at_scale_blocked:
  "calculate_averages
     [\<lparr> platform = ''example.ru'', impressions = 1000, clicks = 0, ctr = 0,
        spend = 0, cpc = 0, bounce = 0, depth = 0, cpa = 0, conversions = 0 \<rparr>]
     = Inr \<lparr> avg_ctr = Num 0, avg_cpc = Num 0, avg_bounce = Num 0, avg_depth = Num 0,
             avg_conversions = Num 0, avg_spend = Num 0, avg_cpa = Num 0 \<rparr>
   \<and> map said (apply_blocking_criteria
       [\<lparr> platform = ''example.ru'', impressions = 1000, clicks = 0, ctr = 0,
          spend = 0, cpc = 0, bounce = 0, depth = 0, cpa = 0, conversions = 0 \<rparr>]
       \<lparr> avg_ctr = Num 0, avg_cpc = Num 0, avg_bounce = Num 0, avg_depth = Num 0,
         avg_conversions = Num 0, avg_spend = Num 0, avg_cpa = Num 0 \<rparr>)
     = [(Some C_2_3, Some High)]
   \<and> segment_platforms
       [\<lparr> platform = ''example.ru'', impressions = 1000, clicks = 0, ctr = 0,
          spend = 0, cpc = 0, bounce = 0, depth = 0, cpa = 0, conversions = 0 \<rparr>]
       \<lparr> avg_ctr = Num 0, avg_cpc = Num 0, avg_bounce = Num 0, avg_depth = Num 0,
         avg_conversions = Num 0, avg_spend = Num 0, avg_cpa = Num 0 \<rparr>
     = Inr \<lparr> effective = [], medium = [], ineffective = [''example.ru''] \<rparr>"
  by (simp add: calculate_averages_def mean_def apply_single_said first_match_cases Let_def
        spec_leniency_def identify_platform_type_def lower_def lower_char_def mobile_prefixes_def
        endswith_def segment_platforms_single segment_of_def)

text \<open>
  C8, as the code has it. A record without conversions, spend and clicks is kept by
  the engine and tagged Medium exactly when its CTR is below 10 and it is not a record
  with CTR below 0.20 and at least 1000 impressions.
\<close>

theorem zero_record_kept_medium:
  assumes "conversions r = 0" and "spend r = 0" and "clicks r = 0"
  shows "(apply_blocking_criteria [r] a = []
          \<and> segment_platforms [r] a =
              Inr \<lparr> effective = [], medium = [platform r], ineffective = [] \<rparr>)
         \<longleftrightarrow> (ctr r < 10 \<and> \<not> (ctr r < 0.20 \<and> impressions r \<ge> 1000))"
proof
  assume "apply_blocking_criteria [r] a = []
          \<and> segment_platforms [r] a =
              Inr \<lparr> effective = [], medium = [platform r], ineffective = [] \<rparr>"
  then have "segment_of a r = Medium" by (simp add: segment_medium_iff)
  then show "ctr r < 10 \<and> \<not> (ctr r < 0.20 \<and> impressions r \<ge> 1000)"
    using assms by (auto simp: segment_of_def split: if_splits)
next
  assume cond: "ctr r < 10 \<and> \<not> (ctr r < 0.20 \<and> impressions r \<ge> 1000)"
  then have "spec_first_match a r = None"
    using assms zero_record_no_match by blast
  then have kept: "apply_blocking_criteria [r] a = []"
    by (simp add: apply_single_empty)
  have "segment_of a r = Medium"
    using assms cond by (auto simp: segment_of_def)
  with kept show "apply_blocking_criteria [r] a = []
          \<and> segment_platforms [r] a =
              Inr \<lparr> effective = [], medium = [platform r], ineffective = [] \<rparr>"
    by (simp add: segment_medium_iff)
qed

theorem zero_record_kept_medium_witness:
  "apply_blocking_criteria
       [\<lparr> platform = ''example.ru'', impressions = 50, clicks = 0, ctr = 0,
          spend = 0, cpc = 0, bounce = 0, depth = 0, cpa = 0, conversions = 0 \<rparr>]
       \<lparr> avg_ctr = Num 1, avg_cpc = Num 10, avg_bounce = Num 30, avg_depth = Num 2,
         avg_conversions = Num 1, avg_spend = Num 100, avg_cpa = Num 100 \<rparr> = []
   \<and> segment_platforms
       [\<lparr> platform = ''example.ru'', impressions = 50, clicks = 0, ctr = 0,
          spend = 0, cpc = 0, bounce = 0, depth = 0, cpa = 0, conversions = 0 \<rparr>]
       \<lparr> avg_ctr = Num 1, avg_cpc = Num 10, avg_bounce = Num 30, avg_depth = Num 2,
         avg_conversions = Num 1, avg_spend = Num 100, avg_cpa = Num 100 \<rparr>
     = Inr \<lparr> effective = [], medium = [''example.ru''], ineffective = [] \<rparr>"
  using zero_record_kept_medium
    [of "\<lparr> platform = ''example.ru'', impressions = 50, clicks = 0, ctr = 0,
           spend = 0, cpc = 0, bounce = 0, depth = 0, cpa = 0, conversions = 0 \<rparr>"
        "\<lparr> avg_ctr = Num 1, avg_cpc = Num 10, avg_bounce = Num 30, avg_depth = Num 2,
           avg_conversions = Num 1, avg_spend = Num 100, avg_cpa = Num 100 \<rparr>"]
  by simp

text \<open>
  C9. A record that the segmentation tags Effective matches no blocking rule under
  the same baselines: the engine gives no verdict for it.
\<close>

theorem effective_never_blocked:
  assumes "segment_platforms [r] a =
             Inr \<lparr> effective = [platform r], medium = [], ineffective = [] \<rparr>"
  shows "apply_blocking_criteria [r] a = []"
proof -
  from assms have "segment_of a r = Effective" by (simp add: segment_effective_iff)
  then have eff: "conversions r > 0" "pf_le (Num (cpa r)) (avg_cpa a)"
    "0.5 \<le> ctr r" "ctr r \<le> 2"
    by (auto simp: segment_of_def split: if_splits)
  from eff(2) obtain x where x: "avg_cpa a = Num x" "cpa r \<le> x"
    by (cases "avg_cpa a") auto
  define k where "k = spec_leniency (identify_platform_type (platform r))"
  have k: "10 \<le> 10 * k" "0.20 / k \<le> 0.20" "1 \<le> k"
    unfolding k_def by (rule leniency_bounds)+
  have c1: "\<not> ctr r \<ge> 50" "\<not> ctr r > 15" "\<not> ctr r > 20" "conversions r \<noteq> 0"
    using eff by auto
  have c2: "\<not> 10 * k \<le> ctr r" using k(1) eff(4) by linarith
  have c3: "\<not> ctr r < 0.20 / k" using k(2) eff(3) by simp
  have c4: "\<not> (pf_less (Num 0) (avg_cpa a)
              \<and> pf_less (pf_times (avg_cpa a) (2.5 * k)) (Num (cpa r)))"
  proof
    assume "pf_less (Num 0) (avg_cpa a)
              \<and> pf_less (pf_times (avg_cpa a) (2.5 * k)) (Num (cpa r))"
    with x have pos: "0 < x" and above: "x * (2.5 * k) < cpa r" by simp_all
    from pos k(3) have "x * 1 \<le> x * (2.5 * k)"
      by (intro mult_left_mono) auto
    with above x(2) show False by simp
  qed
  have "spec_first_match a r = None"
    unfolding first_match_cases Let_def k_def [symmetric]
    using c1 c2 c3 c4 by simp
  then show ?thesis by (simp add: apply_single_empty)
qed

theorem effective_never_blocked_witness:
  "segment_platforms
       [\<lparr> platform = ''example.ru'', impressions = 1000, clicks = 10, ctr = 1,
          spend = 200, cpc = 20, bounce = 20, depth = 3, cpa = 100, conversions = 2 \<rparr>]
       \<lparr> avg_ctr = Num 1, avg_cpc = Num 10, avg_bounce = Num 30, avg_depth = Num 2,
         avg_conversions = Num 1, avg_spend = Num 100, avg_cpa = Num 100 \<rparr>
     = Inr \<lparr> effective = [''example.ru''], medium = [], ineffective = [] \<rparr>
   \<and> apply_blocking_criteria
       [\<lparr> platform = ''example.ru'', impressions = 1000, clicks = 10, ctr = 1,
          spend = 200, cpc = 20, bounce = 20, depth = 3, cpa = 100, conversions = 2 \<rparr>]
       \<lparr> avg_ctr = Num 1, avg_cpc = Num 10, avg_bounce = Num 30, avg_depth = Num 2,
         avg_conversions = Num 1, avg_spend = Num 100, avg_cpa = Num 100 \<rparr> = []"
  using effective_never_blocked
    [of "\<lparr> platform = ''example.ru'', impressions = 1000, clicks = 10, ctr = 1,
           spend = 200, cpc = 20, bounce = 20, depth = 3, cpa = 100, conversions = 2 \<rparr>"
        "\<lparr> avg_ctr = Num 1, avg_cpc = Num 10, avg_bounce = Num 30, avg_depth = Num 2,
           avg_conversions = Num 1, avg_spend = Num 100, avg_cpa = Num 100 \<rparr>"]
  by (simp add: segment_platforms_single segment_of_def)

section \<open>Leniency for Yandex placements\<close>

text \<open>
  Baselines computed from a batch whose bounce rates and goal prices are not negative
  are not negative themselves.
\<close>

lemma mean_not_negative:
  assumes "\<forall>x \<in> set xs. 0 \<le> x"
  shows "\<not> pf_less (mean xs) (Num 0)"
proof -
  from assms have "0 \<le> sum_list xs" by (simp add: sum_list_nonneg)
  then have "0 \<le> sum_list xs / real (length xs)" by simp
  then show ?thesis by (simp add: mean_def)
qed

lemma baselines_not_negative:
  assumes "calculate_averages df = Inr a"
    and "\<forall>x \<in> set df. 0 \<le> bounce x \<and> 0 \<le> cpa x"
  shows "\<not> pf_less (avg_bounce a) (Num 0) \<and> \<not> pf_less (avg_cpa a) (Num 0)"
proof -
  have b: "\<not> pf_less (mean (map bounce df)) (Num 0)"
    using assms(2) by (intro mean_not_negative) auto
  have c: "\<not> pf_less (mean (map cpa (filter (\<lambda>r. conversions r > 0) df))) (Num 0)"
    using assms(2) by (intro mean_not_negative) auto
  from assms(1) b c show ?thesis
    by (auto simp: calculate_averages_def Let_def split: if_splits)
qed

lemma lenient_pair_coefs:
  assumes "lenient_pair ry rg"
  shows "yandex_coef (identify_platform_type (platform ry)) = 1.5"
    and "yandex_coef (identify_platform_type (platform rg)) = 1"
  using assms by (simp_all add: lenient_pair_def yandex_coef_def)

lemma lenient_pair_fields:
  assumes "lenient_pair ry rg"
  shows "impressions rg = impressions ry" "clicks rg = clicks ry" "ctr rg = ctr ry"
    "spend rg = spend ry" "cpc rg = cpc ry" "bounce rg = bounce ry" "depth rg = depth ry"
    "cpa rg = cpa ry" "conversions rg = conversions ry"
proof -
  from assms have eq: "rg = ry\<lparr> platform := platform rg \<rparr>"
    by (simp add: lenient_pair_def)
  show "impressions rg = impressions ry" by (subst eq) simp
  show "clicks rg = clicks ry" by (subst eq) simp
  show "ctr rg = ctr ry" by (subst eq) simp
  show "spend rg = spend ry" by (subst eq) simp
  show "cpc rg = cpc ry" by (subst eq) simp
  show "bounce rg = bounce ry" by (subst eq) simp
  show "depth rg = depth ry" by (subst eq) simp
  show "cpa rg = cpa ry" by (subst eq) simp
  show "conversions rg = conversions ry" by (subst eq) simp
qed

text \<open>When each criterion fires, in terms of the coefficient.\<close>

lemma fires_2_1A_iff:
  "fires C_2_1A (\<lambda>k. crit_2_1A k a) r \<longleftrightarrow>
     conversions r > 0
     \<and> pf_less (pf_times (avg_cpa a)
                  (2.5 * yandex_coef (identify_platform_type (platform r)))) (Num (cpa r))
     \<and> pf_less (Num 0) (avg_cpa a)"
  by (simp add: fires_def crit_2_1A_def Let_def block_fields initial_decision_def
        pf_times_times)

lemma fires_2_1B_iff:
  "fires C_2_1B crit_2_1B r \<longleftrightarrow>
     conversions r = 0
     \<and> spend r \<ge> 50 * yandex_coef (identify_platform_type (platform r))
     \<and> clicks r \<ge> 10"
  by (simp add: fires_def crit_2_1B_def Let_def block_fields initial_decision_def)

lemma fires_2_2b_iff:
  "fires C_2_2b (\<lambda>k. crit_2_2 k a) r \<longleftrightarrow>
     \<not> (ctr r \<ge> 50 \<and> impressions r \<ge> 10)
     \<and> ctr r \<ge> 10 * yandex_coef (identify_platform_type (platform r))
     \<and> ctr r < 50 \<and> impressions r \<ge> 10 \<and> conversions r = 0"
  by (auto simp: fires_def crit_2_2_def block_fields initial_decision_def)

lemma fires_2_2b_2_1_iff:
  "fires C_2_2b_2_1 (\<lambda>k. crit_2_2 k a) r \<longleftrightarrow>
     \<not> (ctr r \<ge> 50 \<and> impressions r \<ge> 10)
     \<and> ctr r \<ge> 10 * yandex_coef (identify_platform_type (platform r))
     \<and> ctr r < 50 \<and> impressions r \<ge> 10 \<and> conversions r > 0
     \<and> pf_less (pf_times (avg_cpa a)
                  (2.5 * yandex_coef (identify_platform_type (platform r)))) (Num (cpa r))"
  by (auto simp: fires_def crit_2_2_def block_fields initial_decision_def pf_times_times)

lemma fires_2_3_iff:
  "fires C_2_3 crit_2_3 r \<longleftrightarrow>
     ctr r < 0.20 / yandex_coef (identify_platform_type (platform r))
     \<and> impressions r \<ge> 1000"
  by (simp add: fires_def crit_2_3_def Let_def block_fields initial_decision_def)

lemma fires_2_4_iff:
  "fires C_2_4 (\<lambda>k. crit_2_4 k a) r \<longleftrightarrow>
     (pf_less (pf_times (avg_bounce a)
                 (1.2 * yandex_coef (identify_platform_type (platform r)))) (Num (bounce r))
      \<or> depth r \<le> 1.0)
     \<and> conversions r = 0 \<and> clicks r \<ge> 20"
  by (simp add: fires_def crit_2_4_def Let_def block_fields initial_decision_def
        pf_times_times)

text \<open>A larger multiple of a baseline that is not negative is harder to exceed.\<close>

lemma pf_less_scaled:
  assumes "\<not> pf_less b (Num 0)" and "k \<le> k'" and "pf_less (pf_times b k') (Num x)"
  shows "pf_less (pf_times b k) (Num x)"
proof (cases b)
  case NaN
  with assms(3) show ?thesis by simp
next
  case (Num y)
  with assms(1) have "0 \<le> y" by simp
  with assms(2) have "y * k \<le> y * k'" by (simp add: mult_left_mono)
  with assms(3) Num show ?thesis by simp
qed

lemma pf_positive_not_negative: "pf_less (Num 0) b \<Longrightarrow> \<not> pf_less b (Num 0)"
  by (cases b) simp_all

lemma identify_examples:
  "identify_platform_type ''yandex.ru'' = Yandex"
  "identify_platform_type ''example.ru'' = Site"
  by (simp_all add: identify_platform_type_def lower_def lower_char_def mobile_prefixes_def
        endswith_def)

lemma lenient_pair_example:
  "lenient_pair (r\<lparr> platform := ''yandex.ru'' \<rparr>) (r\<lparr> platform := ''example.ru'' \<rparr>)"
  by (simp add: lenient_pair_def identify_examples)

text \<open>
  For each scaled criterion, a record that makes the plain site fire and the Yandex
  placement not.
\<close>

lemma strict_2_1A:
  "\<exists>ry rg a. lenient_pair ry rg \<and> fires C_2_1A (\<lambda>k. crit_2_1A k a) rg
      \<and> \<not> fires C_2_1A (\<lambda>k. crit_2_1A k a) ry"
proof (intro exI conjI)
  let ?r = "example_row\<lparr> cpa := 300, conversions := 1 \<rparr>"
  show "lenient_pair (?r\<lparr> platform := ''yandex.ru'' \<rparr>) (?r\<lparr> platform := ''example.ru'' \<rparr>)"
    by (rule lenient_pair_example)
  show "fires C_2_1A (\<lambda>k. crit_2_1A k example_baselines) (?r\<lparr> platform := ''example.ru'' \<rparr>)"
    by (simp add: fires_2_1A_iff identify_examples yandex_coef_def example_baselines_def)
  show "\<not> fires C_2_1A (\<lambda>k. crit_2_1A k example_baselines) (?r\<lparr> platform := ''yandex.ru'' \<rparr>)"
    by (simp add: fires_2_1A_iff identify_examples yandex_coef_def example_baselines_def)
qed

lemma strict_2_1B:
  "\<exists>ry rg. lenient_pair ry rg \<and> fires C_2_1B crit_2_1B rg \<and> \<not> fires C_2_1B crit_2_1B ry"
proof (intro exI conjI)
  let ?r = "example_row\<lparr> spend := 60 \<rparr>"
  show "lenient_pair (?r\<lparr> platform := ''yandex.ru'' \<rparr>) (?r\<lparr> platform := ''example.ru'' \<rparr>)"
    by (rule lenient_pair_example)
  show "fires C_2_1B crit_2_1B (?r\<lparr> platform := ''example.ru'' \<rparr>)"
    by (simp add: fires_2_1B_iff identify_examples yandex_coef_def example_row_def)
  show "\<not> fires C_2_1B crit_2_1B (?r\<lparr> platform := ''yandex.ru'' \<rparr>)"
    by (simp add: fires_2_1B_iff identify_examples yandex_coef_def example_row_def)
qed

lemma strict_2_2b:
  "\<exists>ry rg a. lenient_pair ry rg \<and> fires C_2_2b (\<lambda>k. crit_2_2 k a) rg
      \<and> \<not> fires C_2_2b (\<lambda>k. crit_2_2 k a) ry"
proof (intro exI conjI)
  let ?r = "example_row\<lparr> ctr := 12 \<rparr>"
  show "lenient_pair (?r\<lparr> platform := ''yandex.ru'' \<rparr>) (?r\<lparr> platform := ''example.ru'' \<rparr>)"
    by (rule lenient_pair_example)
  show "fires C_2_2b (\<lambda>k. crit_2_2 k example_baselines) (?r\<lparr> platform := ''example.ru'' \<rparr>)"
    by (simp add: fires_2_2b_iff identify_examples yandex_coef_def example_row_def)
  show "\<not> fires C_2_2b (\<lambda>k. crit_2_2 k example_baselines) (?r\<lparr> platform := ''yandex.ru'' \<rparr>)"
    by (simp add: fires_2_2b_iff identify_examples yandex_coef_def example_row_def)
qed

lemma strict_2_2b_2_1:
  "\<exists>ry rg a. lenient_pair ry rg \<and> \<not> pf_less (avg_cpa a) (Num 0)
      \<and> fires C_2_2b_2_1 (\<lambda>k. crit_2_2 k a) rg
      \<and> \<not> fires C_2_2b_2_1 (\<lambda>k. crit_2_2 k a) ry"
proof (intro exI conjI)
  let ?r = "example_row\<lparr> ctr := 20, cpa := 300, conversions := 1 \<rparr>"
  show "lenient_pair (?r\<lparr> platform := ''yandex.ru'' \<rparr>) (?r\<lparr> platform := ''example.ru'' \<rparr>)"
    by (rule lenient_pair_example)
  show "\<not> pf_less (avg_cpa example_baselines) (Num 0)"
    by (simp add: example_baselines_def)
  show "fires C_2_2b_2_1 (\<lambda>k. crit_2_2 k example_baselines) (?r\<lparr> platform := ''example.ru'' \<rparr>)"
    by (simp add: fires_2_2b_2_1_iff identify_examples yandex_coef_def example_row_def
          example_baselines_def)
  show "\<not> fires C_2_2b_2_1 (\<lambda>k. crit_2_2 k example_baselines) (?r\<lparr> platform := ''yandex.ru'' \<rparr>)"
    by (simp add: fires_2_2b_2_1_iff identify_examples yandex_coef_def example_row_def
          example_baselines_def)
qed

lemma strict_2_3:
  "\<exists>ry rg. lenient_pair ry rg \<and> fires C_2_3 crit_2_3 rg \<and> \<not> fires C_2_3 crit_2_3 ry"
proof (intro exI conjI)
  let ?r = "example_row\<lparr> impressions := 1000, ctr := 0.15 \<rparr>"
  show "lenient_pair (?r\<lparr> platform := ''yandex.ru'' \<rparr>) (?r\<lparr> platform := ''example.ru'' \<rparr>)"
    by (rule lenient_pair_example)
  show "fires C_2_3 crit_2_3 (?r\<lparr> platform := ''example.ru'' \<rparr>)"
    by (simp add: fires_2_3_iff identify_examples yandex_coef_def)
  show "\<not> fires C_2_3 crit_2_3 (?r\<lparr> platform := ''yandex.ru'' \<rparr>)"
    by (simp add: fires_2_3_iff identify_examples yandex_coef_def)
qed

lemma strict_2_4:
  "\<exists>ry rg a. lenient_pair ry rg \<and> \<not> pf_less (avg_bounce a) (Num 0)
      \<and> fires C_2_4 (\<lambda>k. crit_2_4 k a) rg
      \<and> \<not> fires C_2_4 (\<lambda>k. crit_2_4 k a) ry"
proof (intro exI conjI)
  let ?r = "example_row\<lparr> bounce := 70 \<rparr>"
  show "lenient_pair (?r\<lparr> platform := ''yandex.ru'' \<rparr>) (?r\<lparr> platform := ''example.ru'' \<rparr>)"
    by (rule lenient_pair_example)
  show "\<not> pf_less (avg_bounce example_baselines) (Num 0)"
    by (simp add: example_baselines_def)
  show "fires C_2_4 (\<lambda>k. crit_2_4 k example_baselines) (?r\<lparr> platform := ''example.ru'' \<rparr>)"
    by (simp add: fires_2_4_iff identify_examples yandex_coef_def example_row_def
          example_baselines_def)
  show "\<not> fires C_2_4 (\<lambda>k. crit_2_4 k example_baselines) (?r\<lparr> platform := ''yandex.ru'' \<rparr>)"
    by (simp add: fires_2_4_iff identify_examples yandex_coef_def example_row_def
          example_baselines_def)
qed

text \<open>
  C7. Take a Yandex placement and a plain site with the same numeric fields, judged
  against the same baselines. Whenever a coefficient-scaled criterion (2.1A, 2.1B,
  2.2b, 2.3, 2.4) fires for the Yandex placement it fires for the plain site, and for
  each of them there are field values for which it fires for the plain site only.
  The baselines are means of quantities that are not negative: the parts for 2.4 and
  for the expensive-conversion branch of 2.2b use that \<open>avg_bounce\<close>, respectively
  \<open>avg_cpa\<close>, is not negative.
\<close>

theorem yandex_leniency:
  assumes "lenient_pair ry rg"
  shows "(fires C_2_1A (\<lambda>k. crit_2_1A k a) ry \<longrightarrow> fires C_2_1A (\<lambda>k. crit_2_1A k a) rg)
       \<and> (fires C_2_1B crit_2_1B ry \<longrightarrow> fires C_2_1B crit_2_1B rg)
       \<and> (fires C_2_2b (\<lambda>k. crit_2_2 k a) ry \<longrightarrow> fires C_2_2b (\<lambda>k. crit_2_2 k a) rg)
       \<and> (fires C_2_3 crit_2_3 ry \<longrightarrow> fires C_2_3 crit_2_3 rg)
       \<and> (\<not> pf_less (avg_cpa a) (Num 0) \<longrightarrow>
            fires C_2_2b_2_1 (\<lambda>k. crit_2_2 k a) ry \<longrightarrow> fires C_2_2b_2_1 (\<lambda>k. crit_2_2 k a) rg)
       \<and> (\<not> pf_less (avg_bounce a) (Num 0) \<longrightarrow>
            fires C_2_4 (\<lambda>k. crit_2_4 k a) ry \<longrightarrow> fires C_2_4 (\<lambda>k. crit_2_4 k a) rg)
       \<and> (\<exists>ry rg a. lenient_pair ry rg \<and> fires C_2_1A (\<lambda>k. crit_2_1A k a) rg
              \<and> \<not> fires C_2_1A (\<lambda>k. crit_2_1A k a) ry)
       \<and> (\<exists>ry rg. lenient_pair ry rg \<and> fires C_2_1B crit_2_1B rg
              \<and> \<not> fires C_2_1B crit_2_1B ry)
       \<and> (\<exists>ry rg a. lenient_pair ry rg \<and> fires C_2_2b (\<lambda>k. crit_2_2 k a) rg
              \<and> \<not> fires C_2_2b (\<lambda>k. crit_2_2 k a) ry)
       \<and> (\<exists>ry rg. lenient_pair ry rg \<and> fires C_2_3 crit_2_3 rg \<and> \<not> fires C_2_3 crit_2_3 ry)
       \<and> (\<exists>ry rg a. lenient_pair ry rg \<and> \<not> pf_less (avg_cpa a) (Num 0)
              \<and> fires C_2_2b_2_1 (\<lambda>k. crit_2_2 k a) rg
              \<and> \<not> fires C_2_2b_2_1 (\<lambda>k. crit_2_2 k a) ry)
       \<and> (\<exists>ry rg a. lenient_pair ry rg \<and> \<not> pf_less (avg_bounce a) (Num 0)
              \<and> fires C_2_4 (\<lambda>k. crit_2_4 k a) rg
              \<and> \<not> fires C_2_4 (\<lambda>k. crit_2_4 k a) ry)"
proof -
  note co = lenient_pair_coefs [OF assms]
  note fl = lenient_pair_fields [OF assms]
  have a1: "fires C_2_1A (\<lambda>k. crit_2_1A k a) rg" if "fires C_2_1A (\<lambda>k. crit_2_1A k a) ry"
  proof -
    from that have f: "conversions ry > 0" "pf_less (pf_times (avg_cpa a) (2.5 * 1.5)) (Num (cpa ry))"
      "pf_less (Num 0) (avg_cpa a)"
      by (simp_all add: fires_2_1A_iff co)
    from f(3) have "\<not> pf_less (avg_cpa a) (Num 0)" by (rule pf_positive_not_negative)
    then have "pf_less (pf_times (avg_cpa a) (2.5 * 1)) (Num (cpa ry))"
      by (rule pf_less_scaled [OF _ _ f(2)]) simp
    with f show ?thesis by (simp add: fires_2_1A_iff co fl)
  qed
  have a2: "fires C_2_1B crit_2_1B rg" if "fires C_2_1B crit_2_1B ry"
    using that by (simp add: fires_2_1B_iff co fl)
  have a3: "fires C_2_2b (\<lambda>k. crit_2_2 k a) rg" if "fires C_2_2b (\<lambda>k. crit_2_2 k a) ry"
    using that by (simp add: fires_2_2b_iff co fl)
  have a4: "fires C_2_3 crit_2_3 rg" if "fires C_2_3 crit_2_3 ry"
    using that by (simp add: fires_2_3_iff co fl)
  have a5: "fires C_2_2b_2_1 (\<lambda>k. crit_2_2 k a) rg"
    if nn: "\<not> pf_less (avg_cpa a) (Num 0)" and "fires C_2_2b_2_1 (\<lambda>k. crit_2_2 k a) ry"
  proof -
    from that(2) have f: "\<not> (ctr ry \<ge> 50 \<and> impressions ry \<ge> 10)" "ctr ry \<ge> 10 * 1.5"
      "ctr ry < 50" "impressions ry \<ge> 10" "conversions ry > 0"
      "pf_less (pf_times (avg_cpa a) (2.5 * 1.5)) (Num (cpa ry))"
      by (simp_all add: fires_2_2b_2_1_iff co)
    from nn have "pf_less (pf_times (avg_cpa a) (2.5 * 1)) (Num (cpa ry))"
      by (rule pf_less_scaled [OF _ _ f(6)]) simp
    with f show ?thesis by (simp add: fires_2_2b_2_1_iff co fl)
  qed
  have a6: "fires C_2_4 (\<lambda>k. crit_2_4 k a) rg"
    if nn: "\<not> pf_less (avg_bounce a) (Num 0)" and "fires C_2_4 (\<lambda>k. crit_2_4 k a) ry"
  proof -
    from that(2) have f: "pf_less (pf_times (avg_bounce a) (1.2 * 1.5)) (Num (bounce ry))
        \<or> depth ry \<le> 1.0" "conversions ry = 0" "clicks ry \<ge> 20"
      by (simp_all add: fires_2_4_iff co)
    have "pf_less (pf_times (avg_bounce a) (1.2 * 1)) (Num (bounce ry))"
      if "pf_less (pf_times (avg_bounce a) (1.2 * 1.5)) (Num (bounce ry))"
      using nn by (rule pf_less_scaled [OF _ _ that]) simp
    with f show ?thesis by (auto simp: fires_2_4_iff co fl)
  qed
  show ?thesis
    using a1 a2 a3 a4 a5 a6 strict_2_1A strict_2_1B strict_2_2b strict_2_3 strict_2_2b_2_1
      strict_2_4
    by (intro conjI impI)
qed

theorem yandex_leniency_witness:
  "lenient_pair (example_row\<lparr> platform := ''yandex.ru'', ctr := 20, spend := 80, bounce := 95 \<rparr>)
                (example_row\<lparr> platform := ''example.ru'', ctr := 20, spend := 80, bounce := 95 \<rparr>)
   \<and> \<not> pf_less (avg_bounce example_baselines) (Num 0)
   \<and> \<not> pf_less (avg_cpa example_baselines) (Num 0)
   \<and> fires C_2_1B crit_2_1B
        (example_row\<lparr> platform := ''yandex.ru'', ctr := 20, spend := 80, bounce := 95 \<rparr>)
   \<and> fires C_2_1B crit_2_1B
        (example_row\<lparr> platform := ''example.ru'', ctr := 20, spend := 80, bounce := 95 \<rparr>)
   \<and> fires C_2_2b (\<lambda>k. crit_2_2 k example_baselines)
        (example_row\<lparr> platform := ''example.ru'', ctr := 20, spend := 80, bounce := 95 \<rparr>)
   \<and> fires C_2_4 (\<lambda>k. crit_2_4 k example_baselines)
        (example_row\<lparr> platform := ''example.ru'', ctr := 20, spend := 80, bounce := 95 \<rparr>)
   \<and> fires C_2_1A (\<lambda>k. crit_2_1A k example_baselines)
        (example_row\<lparr> platform := ''example.ru'', ctr := 20, cpa := 400, conversions := 1 \<rparr>)
   \<and> fires C_2_2b_2_1 (\<lambda>k. crit_2_2 k example_baselines)
        (example_row\<lparr> platform := ''example.ru'', ctr := 20, cpa := 400, conversions := 1 \<rparr>)
   \<and> fires C_2_3 crit_2_3
        (example_row\<lparr> platform := ''example.ru'', impressions := 1000, ctr := 0.1 \<rparr>)"
proof -
  let ?y0 = "example_row\<lparr> platform := ''yandex.ru'', ctr := 20, spend := 80, bounce := 95 \<rparr>"
  let ?g0 = "example_row\<lparr> platform := ''example.ru'', ctr := 20, spend := 80, bounce := 95 \<rparr>"
  let ?y1 = "example_row\<lparr> platform := ''yandex.ru'', ctr := 20, cpa := 400, conversions := 1 \<rparr>"
  let ?g1 = "example_row\<lparr> platform := ''example.ru'', ctr := 20, cpa := 400, conversions := 1 \<rparr>"
  let ?y2 = "example_row\<lparr> platform := ''yandex.ru'', impressions := 1000, ctr := 0.1 \<rparr>"
  let ?g2 = "example_row\<lparr> platform := ''example.ru'', impressions := 1000, ctr := 0.1 \<rparr>"
  have p0: "lenient_pair ?y0 ?g0" and p1: "lenient_pair ?y1 ?g1" and p2: "lenient_pair ?y2 ?g2"
    by (simp_all add: lenient_pair_def identify_examples example_row_def)
  have nn: "\<not> pf_less (avg_bounce example_baselines) (Num 0)"
    "\<not> pf_less (avg_cpa example_baselines) (Num 0)"
    by (simp_all add: example_baselines_def)
  have y0: "fires C_2_1B crit_2_1B ?y0" "fires C_2_2b (\<lambda>k. crit_2_2 k example_baselines) ?y0"
    "fires C_2_4 (\<lambda>k. crit_2_4 k example_baselines) ?y0"
    by (simp_all add: fires_2_1B_iff fires_2_2b_iff fires_2_4_iff identify_examples
          yandex_coef_def example_row_def example_baselines_def)
  have y1: "fires C_2_1A (\<lambda>k. crit_2_1A k example_baselines) ?y1"
    "fires C_2_2b_2_1 (\<lambda>k. crit_2_2 k example_baselines) ?y1"
    by (simp_all add: fires_2_1A_iff fires_2_2b_2_1_iff identify_examples
          yandex_coef_def example_row_def example_baselines_def)
  have y2: "fires C_2_3 crit_2_3 ?y2"
    by (simp add: fires_2_3_iff identify_examples yandex_coef_def example_row_def)
  show ?thesis
    using yandex_leniency [OF p0, of example_baselines]
      yandex_leniency [OF p1, of example_baselines]
      yandex_leniency [OF p2, of example_baselines] p0 nn y0 y1 y2
    by blast
qed

end
